theory Spec2Isabelle
  imports Main
begin

section \<open>Python strings\<close>

text \<open>
  A Python \<open>str\<close> is a sequence of Unicode code points. A code point is modelled as a
  natural number and a string as a list of them, so that the whitespace beyond ASCII that
  \<open>str.strip\<close> and the regular expression \<open>\s\<close> recognise is part of the model.
  \<open>str\<close> reads an ASCII literal of the source as such a list.
\<close>

type_synonym codepoint = nat
type_synonym pystr = "codepoint list"

definition str :: "string \<Rightarrow> pystr" where
  "str cs = map of_char cs"

text \<open>
  \<open>str.isspace\<close> on one character, which is also the class \<open>\s\<close> of \<open>re\<close> on a
  \<open>str\<close> pattern and the set that \<open>str.strip()\<close> removes: U+0009..U+000D,
  U+001C..U+0020, U+0085, U+00A0, U+1680, U+2000..U+200A, U+2028, U+2029, U+202F,
  U+205F and U+3000.
\<close>

definition isspace :: "codepoint \<Rightarrow> bool" where
  "isspace c =
     ((9 \<le> c \<and> c \<le> 13) \<or> (28 \<le> c \<and> c \<le> 32) \<or> c = 133 \<or> c = 160 \<or> c = 5760 \<or>
      (8192 \<le> c \<and> c \<le> 8202) \<or> c = 8232 \<or> c = 8233 \<or> c = 8239 \<or> c = 8287 \<or>
      c = 12288)"

text \<open>\<open>s.lstrip()\<close>, \<open>s.rstrip()\<close> and \<open>s.strip()\<close> without argument.\<close>

definition lstrip :: "pystr \<Rightarrow> pystr" where
  "lstrip s = dropWhile isspace s"

definition rstrip :: "pystr \<Rightarrow> pystr" where
  "rstrip s = rev (dropWhile isspace (rev s))"

definition strip :: "pystr \<Rightarrow> pystr" where
  "strip s = rstrip (lstrip s)"

text \<open>\<open>s.lstrip(chars)\<close>: drops the leading characters that occur in \<open>chars\<close>.\<close>

definition lstrip_chars :: "pystr \<Rightarrow> pystr \<Rightarrow> pystr" where
  "lstrip_chars chars s = dropWhile (\<lambda>c. c \<in> set chars) s"

text \<open>\<open>s.startswith(p)\<close>.\<close>

definition startswith :: "pystr \<Rightarrow> pystr \<Rightarrow> bool" where
  "startswith s p = (take (length p) s = p)"

subsection \<open>The two regular expressions of the source\<close>

text \<open>
  \<open>re.sub(pattern, repl, s)\<close> scans \<open>s\<close> from the left, replaces each leftmost
  non-overlapping match by \<open>repl\<close> and copies the characters between matches.

  For a pattern \<open>C+\<close> over a character class \<open>C\<close> the match at a position is the
  longest run of characters of the class that starts there (the quantifier is greedy),
  and the scan goes on after the run.
\<close>

function re_sub_plus :: "(codepoint \<Rightarrow> bool) \<Rightarrow> pystr \<Rightarrow> pystr \<Rightarrow> pystr" where
  "re_sub_plus cls repl [] = []"
| "re_sub_plus cls repl (c # cs) =
     (if cls c then repl @ re_sub_plus cls repl (dropWhile cls cs)
      else c # re_sub_plus cls repl cs)"
  by pat_completeness auto
termination
  by (relation "measure (\<lambda>(cls, repl, s). length s)")
     (auto simp: length_dropWhile_le less_Suc_eq_le)

text \<open>For a pattern that is one character class, every character of the class is a match.\<close>

fun re_sub_class :: "(codepoint \<Rightarrow> bool) \<Rightarrow> pystr \<Rightarrow> pystr \<Rightarrow> pystr" where
  "re_sub_class cls repl [] = []"
| "re_sub_class cls repl (c # cs) =
     (if cls c then repl @ re_sub_class cls repl cs else c # re_sub_class cls repl cs)"

text \<open>
  The class \<open>[^A-Za-z0-9_\-]\<close>: the complement of the ASCII letters, the digits, the
  underscore (95) and the dash (45). The pattern carries no flag, so no other letter or
  digit of Unicode is in the positive set.
\<close>

definition in_tag_alphabet :: "codepoint \<Rightarrow> bool" where
  "in_tag_alphabet c =
     ((65 \<le> c \<and> c \<le> 90) \<or> (97 \<le> c \<and> c \<le> 122) \<or> (48 \<le> c \<and> c \<le> 57) \<or> c = 95 \<or> c = 45)"

definition not_in_tag_alphabet :: "codepoint \<Rightarrow> bool" where
  "not_in_tag_alphabet c = (\<not> in_tag_alphabet c)"

section \<open>Topic naming\<close>

definition DEFAULT_BROKER :: pystr where
  "DEFAULT_BROKER = str ''test.mosquitto.org''"

definition DEFAULT_PORT :: int where
  "DEFAULT_PORT = 1883"

definition TOPIC_PREFIX :: pystr where
  "TOPIC_PREFIX = str ''twitter/''"

text \<open>
  \<open>sanitize_hashtag\<close>, the same function in \<open>publisher.py\<close> and \<open>subscriber.py\<close>:
  \<^verbatim>\<open>
  tag = tag.strip()
  if tag.startswith("#"):
      tag = tag[1:]
  tag = re.sub(r"\s+", "_", tag)
  tag = re.sub(r"[^A-Za-z0-9_\-]", "", tag)
  return tag
  \<close>
\<close>

definition sanitize_hashtag :: "pystr \<Rightarrow> pystr" where
  "sanitize_hashtag tag0 =
     (let tag1 = strip tag0;
          tag2 = (if startswith tag1 (str ''#'') then drop 1 tag1 else tag1);
          tag3 = re_sub_plus isspace (str ''_'') tag2;
          tag4 = re_sub_class not_in_tag_alphabet (str '''') tag3
      in tag4)"

subsection \<open>The normalisation as the specification words it\<close>

text \<open>
  The specification describes four steps. Each is written here from its words alone, not
  from the library calls of the source: trimming as removing the whitespace at the end and
  then at the start, the marker as a case on the first character, the collapse of a run by
  looking at two neighbours at a time, and the removal as a filter.
\<close>

definition spec_trim :: "pystr \<Rightarrow> pystr" where
  "spec_trim s = dropWhile isspace (rev (dropWhile isspace (rev s)))"

fun spec_strip_marker :: "pystr \<Rightarrow> pystr" where
  "spec_strip_marker [] = []"
| "spec_strip_marker (c # cs) = (if c = 35 then cs else c # cs)"

fun spec_collapse :: "pystr \<Rightarrow> pystr" where
  "spec_collapse [] = []"
| "spec_collapse [c] = (if isspace c then [95] else [c])"
| "spec_collapse (c # d # cs) =
     (if isspace c \<and> isspace d then spec_collapse (d # cs)
      else (if isspace c then 95 else c) # spec_collapse (d # cs))"

definition spec_remove :: "pystr \<Rightarrow> pystr" where
  "spec_remove s = filter in_tag_alphabet s"

definition normalize_spec :: "pystr \<Rightarrow> pystr" where
  "normalize_spec raw = spec_remove (spec_collapse (spec_strip_marker (spec_trim raw)))"

section \<open>What the applications use of Python and of the client library\<close>

text \<open>\<open>str(i)\<close> of an integer, as the f-strings of the source format a port or a return code.\<close>

function digits :: "nat \<Rightarrow> pystr" where
  "digits n = (if n < 10 then [48 + n] else digits (n div 10) @ [48 + n mod 10])"
  by pat_completeness auto
termination
  by (relation "measure (\<lambda>n. n)") auto

definition str_int :: "int \<Rightarrow> pystr" where
  "str_int i = (if i < 0 then 45 # digits (nat (- i)) else digits (nat i))"

text \<open>
  \<open>queue.Queue\<close>: \<open>put\<close> appends at the back, \<open>get_nowait\<close> takes the front element or
  raises \<open>queue.Empty\<close>.
\<close>

datatype queue_error = Empty

definition put :: "'a list \<Rightarrow> 'a \<Rightarrow> 'a list" where
  "put q x = q @ [x]"

definition get_nowait :: "'a list \<Rightarrow> queue_error + ('a \<times> 'a list)" where
  "get_nowait q = (case q of [] \<Rightarrow> Inl Empty | x # r \<Rightarrow> Inr (x, r))"






text \<open>
  A call of the client library either returns or raises; \<open>Raises e\<close> carries the text
  \<open>str(e)\<close> of the exception, which is all the source reads of it.
\<close>

datatype 'a outcome = Returns 'a | Raises pystr


text \<open>
  The calls that the applications issue on a client object of the library:
  \<open>connect(broker, port, keepalive)\<close>, \<open>loop_start()\<close>, \<open>disconnect()\<close>,
  \<open>publish(topic, payload, qos, retain)\<close>, \<open>subscribe(topic, qos)\<close> and
  \<open>unsubscribe(topic)\<close>.
\<close>

datatype client_call =
    Connect pystr int int
  | Loop_start
  | Disconnect
  | Publish pystr pystr int bool
  | Subscribe pystr int
  | Unsubscribe pystr

text \<open>The dialogs of \<open>tkinter.messagebox\<close>, each with its title and its message.\<close>

datatype notice =
    showerror pystr pystr
  | showwarning pystr pystr
  | showinfo pystr pystr

text \<open>
  What a handler of a button leaves behind besides the new state: nothing, a dialog, or the
  \<open>TclError\<close> that \<open>IntVar.get\<close> raises on a port field that does not hold a number.
\<close>

datatype feedback = Quiet | Shown notice | TclError

section \<open>The state both applications share\<close>

text \<open>
  \<open>PublisherApp\<close> and \<open>SubscriberApp\<close> keep the same attributes for the connection:
  \<open>client\<close> (\<open>None\<close> or a client object, here the number of the object), \<open>connected\<close>,
  \<open>status_queue\<close> (pairs of a kind and a message), the variables behind the broker, port
  and hashtag fields, and the texts of the connect button and of the status label (text and
  colour). \<open>port_var\<close> is \<open>None\<close> when the field does not hold a number.

  Three components stand for what lives outside the object: \<open>threads\<close>, the workers
  started by \<open>threading.Thread(...).start()\<close> that have not run yet, each with its broker
  and port; \<open>clients_made\<close>, the number of client objects created so far; and \<open>calls\<close>,
  the calls issued to the client library, each with the client object it was issued on.
\<close>

record app =
  client :: "nat option"
  connected :: bool
  status_queue :: "(pystr \<times> pystr) list"
  broker_var :: pystr
  port_var :: "int option"
  hashtag_var :: pystr
  connect_btn :: pystr
  status_lbl :: "pystr \<times> pystr"
  threads :: "(pystr \<times> int) list"
  clients_made :: nat
  calls :: "(nat \<times> client_call) list"

text \<open>
  A method call on \<open>self.client\<close>. On \<open>None\<close> the attribute lookup raises and no call is
  issued; every call site of the source is either guarded by a test of \<open>self.client\<close> or
  inside a \<open>try\<close> that swallows the exception.
\<close>

definition call :: "client_call \<Rightarrow> 'a app_scheme \<Rightarrow> 'a app_scheme" where
  "call c s = (case client s of None \<Rightarrow> s | Some i \<Rightarrow> s\<lparr>calls := calls s @ [(i, c)]\<rparr>)"

text \<open>
  The points of the worker's \<open>try\<close> block that can raise, and its normal end:
  \<open>mqtt.Client()\<close>, \<open>client.connect(...)\<close>, \<open>client.loop_start()\<close>.
\<close>

datatype worker_outcome =
    Client_raises pystr
  | Connect_raises pystr
  | Loop_start_raises pystr
  | Worker_returns


section \<open>publisher.py\<close>

text \<open>
  \<open>PublisherApp\<close> adds the username field, the tweet text widget and the log widget.
  \<open>log_text\<close> holds the messages passed to \<open>_log\<close>; the widget shows each behind the
  wall-clock prefix of \<open>time.strftime\<close>, which is not modelled. The timer that
  \<open>self.after\<close> arms again at the end of a drain is not modelled either. A method
  \<open>_name\<close> of the class is the constant \<open>pub_name\<close>.
\<close>

record publisher = app +
  username_var :: pystr
  tweet_text :: pystr
  log_text :: "pystr list"

definition pub_init :: publisher where
  "pub_init =
     \<lparr>client = None, connected = False, status_queue = [],
      broker_var = DEFAULT_BROKER, port_var = Some DEFAULT_PORT, hashtag_var = str '''',
      connect_btn = str ''Connect'', status_lbl = (str ''Status: Disconnected'', str ''red''),
      threads = [], clients_made = 0, calls = [],
      username_var = str '''', tweet_text = str '''', log_text = []\<rparr>"

definition pub_log :: "pystr \<Rightarrow> publisher \<Rightarrow> publisher" where
  "pub_log msg s = s\<lparr>log_text := log_text s @ [msg]\<rparr>"

definition pub_connect_async :: "pystr \<Rightarrow> int \<Rightarrow> publisher \<Rightarrow> publisher" where
  "pub_connect_async broker port s =
     (let s1 = pub_log (str ''Connecting to '' @ broker @ str '':'' @ str_int port @ str '' ...'') s;
          s2 = s1\<lparr>status_lbl := (str ''Status: Connecting...'', str ''orange'')\<rparr>
      in s2\<lparr>threads := threads s2 @ [(broker, port)]\<rparr>)"

text \<open>
  \<open>_toggle_connection\<close>; \<open>mqtt\<close> tells whether the import of the client library
  succeeded.
\<close>

definition pub_toggle_connection :: "bool \<Rightarrow> publisher \<Rightarrow> feedback \<times> publisher" where
  "pub_toggle_connection mqtt s =
     (if \<not> mqtt then
        (Shown (showerror (str ''Missing dependency'')
                  (str ''paho-mqtt is not installed.'' @ [10, 10] @ str ''pip install paho-mqtt'')), s)
      else if connected s then
        (let s1 = call Disconnect s;
             s2 = s1\<lparr>connected := False\<rparr>;
             s3 = s2\<lparr>connect_btn := str ''Connect''\<rparr>;
             s4 = s3\<lparr>status_lbl := (str ''Status: Disconnected'', str ''red'')\<rparr>
         in (Quiet, pub_log (str ''Disconnected from broker.'') s4))
      else
        (let broker = strip (broker_var s)
         in case port_var s of
              None \<Rightarrow> (TclError, s)
            | Some v \<Rightarrow>
                (let port = (if v = 0 then DEFAULT_PORT else v)
                 in (Quiet, pub_connect_async broker port s))))"

text \<open>The body of \<open>worker\<close> in \<open>_connect_async\<close>, run by the thread that was started.\<close>

definition pub_worker :: "pystr \<Rightarrow> int \<Rightarrow> worker_outcome \<Rightarrow> publisher \<Rightarrow> publisher" where
  "pub_worker broker port outcome s =
     (case outcome of
        Client_raises e \<Rightarrow>
          s\<lparr>status_queue := put (status_queue s) (str ''error'', str ''Connection failed: '' @ e)\<rparr>
      | _ \<Rightarrow>
          (let s1 = s\<lparr>client := Some (clients_made s), clients_made := Suc (clients_made s)\<rparr>;
               s2 = call (Connect broker port 60) s1
           in case outcome of
                Connect_raises e \<Rightarrow>
                  s2\<lparr>status_queue := put (status_queue s2) (str ''error'', str ''Connection failed: '' @ e)\<rparr>
              | _ \<Rightarrow>
                  (let s3 = call Loop_start s2
                   in case outcome of
                        Loop_start_raises e \<Rightarrow>
                          s3\<lparr>status_queue :=
                               put (status_queue s3) (str ''error'', str ''Connection failed: '' @ e)\<rparr>
                      | _ \<Rightarrow> s3)))"

definition pub_on_connect :: "int \<Rightarrow> publisher \<Rightarrow> publisher" where
  "pub_on_connect reason_code s =
     (if reason_code = 0 then
        s\<lparr>status_queue := put (status_queue s) (str ''connected'', str ''Connected to broker.'')\<rparr>
      else
        s\<lparr>status_queue :=
             put (status_queue s) (str ''error'', str ''Failed to connect. Code: '' @ str_int reason_code)\<rparr>)"

definition pub_on_disconnect :: "publisher \<Rightarrow> publisher" where
  "pub_on_disconnect s =
     s\<lparr>status_queue := put (status_queue s) (str ''disconnected'', str ''Disconnected from broker.'')\<rparr>"

text \<open>
  The body of the \<open>while True\<close> loop of \<open>_drain_status_queue\<close> once \<open>get_nowait\<close> has
  returned \<open>(kind, msg)\<close>. The dash of the error label is U+2014 (8212).
\<close>

definition pub_status_event :: "pystr \<Rightarrow> pystr \<Rightarrow> publisher \<Rightarrow> publisher" where
  "pub_status_event kind msg s =
     (if kind = str ''connected'' then
        pub_log msg
          (s\<lparr>connected := True, connect_btn := str ''Disconnect'',
             status_lbl := (str ''Status: Connected'', str ''green'')\<rparr>)
      else if kind = str ''disconnected'' then
        pub_log msg
          (s\<lparr>connected := False, connect_btn := str ''Connect'',
             status_lbl := (str ''Status: Disconnected'', str ''red'')\<rparr>)
      else if kind = str ''error'' then
        pub_log msg
          (s\<lparr>connected := False, connect_btn := str ''Connect'',
             status_lbl := (str ''Status: Error '' @ [8212] @ str '' see log'', str ''red'')\<rparr>)
      else s)"

text \<open>
  \<open>_drain_status_queue\<close>: the loop ends when \<open>get_nowait\<close> raises \<open>queue.Empty\<close>.
  The drain runs on the thread of the user interface; it is modelled as one step, with no
  \<open>put\<close> of another thread in between.
\<close>

function pub_drain_status_queue :: "publisher \<Rightarrow> publisher" where
  "pub_drain_status_queue s =
     (case get_nowait (status_queue s) of
        Inl Empty \<Rightarrow> s
      | Inr ((kind, msg), rest) \<Rightarrow>
          pub_drain_status_queue (pub_status_event kind msg (s\<lparr>status_queue := rest\<rparr>)))"
  by pat_completeness auto
termination
  by (relation "measure (\<lambda>s. length (status_queue s))")
     (auto simp: get_nowait_def pub_status_event_def pub_log_def split: list.splits)

declare pub_drain_status_queue.simps [simp del]

text \<open>\<open>self.tweet_text.get("1.0", "end")\<close>: a Tk text widget ends its content with a newline.\<close>

definition text_get :: "pystr \<Rightarrow> pystr" where
  "text_get content = content @ [10]"

text \<open>
  \<open>_publish\<close>; \<open>res\<close> is what \<open>client.publish\<close> does: it returns a result with the
  return code \<open>rc\<close>, or it raises.
\<close>

definition pub_publish :: "int outcome \<Rightarrow> publisher \<Rightarrow> feedback \<times> publisher" where
  "pub_publish res s =
     (if \<not> connected s \<or> client s = None then
        (Shown (showwarning (str ''Not connected'') (str ''Please connect to a broker first.'')), s)
      else
        (let username = (if strip (username_var s) = [] then str ''anonymous''
                         else strip (username_var s));
             hashtag = sanitize_hashtag (hashtag_var s);
             text = strip (text_get (tweet_text s))
         in if hashtag = [] then
              (Shown (showwarning (str ''Invalid hashtag'')
                        (str ''Please enter a valid hashtag (e.g., #iot or iot).'')), s)
            else if text = [] then
              (Shown (showwarning (str ''Empty tweet'') (str ''Please write something to publish.'')), s)
            else
              (let topic = TOPIC_PREFIX @ hashtag;
                   payload = username @ str '': '' @ text;
                   s1 = call (Publish topic payload 0 False) s
               in case res of
                    Returns rc \<Rightarrow>
                      if rc = 0 then
                        (Quiet,
                         (pub_log (str ''Published to '' @ [39] @ topic @ [39] @ str '': '' @ payload) s1)
                           \<lparr>tweet_text := []\<rparr>)
                      else (Quiet, pub_log (str ''Publish failed (rc='' @ str_int rc @ str '')'') s1)
                  | Raises e \<Rightarrow> (Quiet, pub_log (str ''Publish error: '' @ e) s1))))"

section \<open>subscriber.py\<close>

text \<open>
  \<open>SubscriberApp\<close> adds the queue of incoming lines, the set of subscribed tags, the
  listbox of their labels and the feed widget. Python does not fix the order in which a
  \<open>set\<close> is iterated; \<open>subscribed\<close> keeps the tags in a list without repetition, and the
  properties below that speak of the tags are stated on the set of the list.
  \<open>msg_text\<close> holds the lines passed to \<open>_log_msg\<close>, without the wall-clock prefix.
  A method \<open>_name\<close> of the class is the constant \<open>sub_name\<close>.
\<close>

record subscriber = app +
  msg_queue :: "pystr list"
  subscribed :: "pystr list"
  sub_list :: "pystr list"
  msg_text :: "pystr list"

definition sub_init :: subscriber where
  "sub_init =
     \<lparr>client = None, connected = False, status_queue = [],
      broker_var = DEFAULT_BROKER, port_var = Some DEFAULT_PORT, hashtag_var = str '''',
      connect_btn = str ''Connect'', status_lbl = (str ''Status: Disconnected'', str ''red''),
      threads = [], clients_made = 0, calls = [],
      msg_queue = [], subscribed = [], sub_list = [], msg_text = []\<rparr>"


definition set_remove :: "'a \<Rightarrow> 'a list \<Rightarrow> 'a list" where
  "set_remove x xs = removeAll x xs"

definition sub_log_msg :: "pystr \<Rightarrow> subscriber \<Rightarrow> subscriber" where
  "sub_log_msg line s = s\<lparr>msg_text := msg_text s @ [line]\<rparr>"

definition sub_connect_async :: "pystr \<Rightarrow> int \<Rightarrow> subscriber \<Rightarrow> subscriber" where
  "sub_connect_async broker port s =
     (let s1 = s\<lparr>status_lbl := (str ''Status: Connecting...'', str ''orange'')\<rparr>;
          s2 = sub_log_msg (str ''Connecting to '' @ broker @ str '':'' @ str_int port @ str '' ...'') s1
      in s2\<lparr>threads := threads s2 @ [(broker, port)]\<rparr>)"

definition sub_toggle_connection :: "bool \<Rightarrow> subscriber \<Rightarrow> feedback \<times> subscriber" where
  "sub_toggle_connection mqtt s =
     (if \<not> mqtt then
        (Shown (showerror (str ''Missing dependency'')
                  (str ''paho-mqtt is not installed.'' @ [10, 10] @ str ''pip install paho-mqtt'')), s)
      else if connected s then
        (let s1 = call Disconnect s;
             s2 = s1\<lparr>connected := False\<rparr>;
             s3 = s2\<lparr>connect_btn := str ''Connect''\<rparr>;
             s4 = s3\<lparr>status_lbl := (str ''Status: Disconnected'', str ''red'')\<rparr>
         in (Quiet, sub_log_msg (str ''Disconnected from broker.'') s4))
      else
        (let broker = strip (broker_var s)
         in case port_var s of
              None \<Rightarrow> (TclError, s)
            | Some v \<Rightarrow>
                (let port = (if v = 0 then DEFAULT_PORT else v)
                 in (Quiet, sub_connect_async broker port s))))"

text \<open>
  The worker of the subscriber also registers \<open>on_message\<close>, which changes no component of
  the state.
\<close>

definition sub_worker :: "pystr \<Rightarrow> int \<Rightarrow> worker_outcome \<Rightarrow> subscriber \<Rightarrow> subscriber" where
  "sub_worker broker port outcome s =
     (case outcome of
        Client_raises e \<Rightarrow>
          s\<lparr>status_queue := put (status_queue s) (str ''error'', str ''Connection failed: '' @ e)\<rparr>
      | _ \<Rightarrow>
          (let s1 = s\<lparr>client := Some (clients_made s), clients_made := Suc (clients_made s)\<rparr>;
               s2 = call (Connect broker port 60) s1
           in case outcome of
                Connect_raises e \<Rightarrow>
                  s2\<lparr>status_queue := put (status_queue s2) (str ''error'', str ''Connection failed: '' @ e)\<rparr>
              | _ \<Rightarrow>
                  (let s3 = call Loop_start s2
                   in case outcome of
                        Loop_start_raises e \<Rightarrow>
                          s3\<lparr>status_queue :=
                               put (status_queue s3) (str ''error'', str ''Connection failed: '' @ e)\<rparr>
                      | _ \<Rightarrow> s3)))"

definition sub_on_connect :: "int \<Rightarrow> subscriber \<Rightarrow> subscriber" where
  "sub_on_connect reason_code s =
     (if reason_code = 0 then
        s\<lparr>status_queue := put (status_queue s) (str ''connected'', str ''Connected to broker.'')\<rparr>
      else
        s\<lparr>status_queue :=
             put (status_queue s) (str ''error'', str ''Failed to connect. Code: '' @ str_int reason_code)\<rparr>)"



text \<open>
  \<open>_subscribe_to_topic\<close>; \<open>lib\<close> tells for a topic whether \<open>client.subscribe\<close> returns
  or raises there.
\<close>

definition sub_subscribe_to_topic ::
    "(pystr \<Rightarrow> unit outcome) \<Rightarrow> pystr \<Rightarrow> subscriber \<Rightarrow> subscriber" where
  "sub_subscribe_to_topic lib tag s =
     (if \<not> connected s \<or> client s = None then
        sub_log_msg (str ''(queued) Will subscribe to #'' @ tag @ str '' when connected.'') s
      else
        (let topic = TOPIC_PREFIX @ tag;
             s1 = call (Subscribe topic 0) s
         in case lib topic of
              Returns u \<Rightarrow> sub_log_msg (str ''Subscribed to '' @ [39] @ topic @ [39]) s1
            | Raises e \<Rightarrow>
                sub_log_msg (str ''Subscribe error for '' @ [39] @ topic @ [39] @ str '': '' @ e) s1))"

text \<open>
  The body of the loop of \<open>_drain_status_queue\<close>. On \<open>"connected"\<close> it walks a copy of
  the set of tags, \<open>list(self.subscribed)\<close>.
\<close>

definition sub_status_event ::
    "(pystr \<Rightarrow> unit outcome) \<Rightarrow> pystr \<Rightarrow> pystr \<Rightarrow> subscriber \<Rightarrow> subscriber" where
  "sub_status_event lib kind msg s =
     (if kind = str ''connected'' then
        (let s1 = sub_log_msg msg
                    (s\<lparr>connected := True, connect_btn := str ''Disconnect'',
                       status_lbl := (str ''Status: Connected'', str ''green'')\<rparr>)
         in fold (sub_subscribe_to_topic lib) (subscribed s1) s1)
      else if kind = str ''disconnected'' then
        sub_log_msg msg
          (s\<lparr>connected := False, connect_btn := str ''Connect'',
             status_lbl := (str ''Status: Disconnected'', str ''red'')\<rparr>)
      else if kind = str ''error'' then
        sub_log_msg msg
          (s\<lparr>connected := False, connect_btn := str ''Connect'',
             status_lbl := (str ''Status: Error '' @ [8212] @ str '' see feed'', str ''red'')\<rparr>)
      else s)"

lemma status_queue_subscribe_to_topic:
  "status_queue (sub_subscribe_to_topic lib tag s) = status_queue s"
  by (simp add: sub_subscribe_to_topic_def sub_log_msg_def call_def Let_def
           split: outcome.splits option.splits)

lemma status_queue_fold_subscribe:
  "status_queue (fold (sub_subscribe_to_topic lib) tags s) = status_queue s"
  by (induction tags arbitrary: s) (simp_all add: status_queue_subscribe_to_topic)

lemma status_queue_sub_status_event:
  "status_queue (sub_status_event lib kind msg s) = status_queue s"
  by (simp add: sub_status_event_def Let_def status_queue_fold_subscribe sub_log_msg_def)

function sub_drain_status_queue :: "(pystr \<Rightarrow> unit outcome) \<Rightarrow> subscriber \<Rightarrow> subscriber" where
  "sub_drain_status_queue lib s =
     (case get_nowait (status_queue s) of
        Inl Empty \<Rightarrow> s
      | Inr ((kind, msg), rest) \<Rightarrow>
          sub_drain_status_queue lib (sub_status_event lib kind msg (s\<lparr>status_queue := rest\<rparr>)))"
  by pat_completeness auto
termination
  by (relation "measure (\<lambda>(lib, s). length (status_queue s))")
     (auto simp: get_nowait_def status_queue_sub_status_event split: list.splits)

declare sub_drain_status_queue.simps [simp del]

function sub_drain_message_queue :: "subscriber \<Rightarrow> subscriber" where
  "sub_drain_message_queue s =
     (case get_nowait (msg_queue s) of
        Inl Empty \<Rightarrow> s
      | Inr (line, rest) \<Rightarrow> sub_drain_message_queue (sub_log_msg line (s\<lparr>msg_queue := rest\<rparr>)))"
  by pat_completeness auto
termination
  by (relation "measure (\<lambda>s. length (msg_queue s))")
     (auto simp: get_nowait_def sub_log_msg_def split: list.splits)

declare sub_drain_message_queue.simps [simp del]


text \<open>\<open>Listbox.get(i)\<close>: the label at index \<open>i\<close>, the empty string outside the list.\<close>

definition listbox_get :: "pystr list \<Rightarrow> nat \<Rightarrow> pystr" where
  "listbox_get labels i = (if i < length labels then labels ! i else [])"

text \<open>
  The loop of \<open>_unsubscribe\<close> over the listbox: it deletes the first label that gives the
  tag once its leading \<open>#\<close> are stripped, and stops.
\<close>

fun listbox_delete_tag :: "pystr \<Rightarrow> pystr list \<Rightarrow> pystr list" where
  "listbox_delete_tag tag [] = []"
| "listbox_delete_tag tag (label # labels) =
     (if lstrip_chars (str ''#'') label = tag then labels
      else label # listbox_delete_tag tag labels)"

text \<open>
  \<open>_unsubscribe\<close>; \<open>selection\<close> is what \<open>self.sub_list.curselection()\<close> returns when the
  button is pressed (the selected indices), \<open>res\<close> what \<open>client.unsubscribe\<close> does.
\<close>

definition unsubscribe_tag :: "nat list \<Rightarrow> subscriber \<Rightarrow> pystr" where
  "unsubscribe_tag selection s =
     (case selection of
        i # others \<Rightarrow> lstrip_chars (str ''#'') (listbox_get (sub_list s) i)
      | [] \<Rightarrow> sanitize_hashtag (hashtag_var s))"

definition sub_unsubscribe :: "nat list \<Rightarrow> unit outcome \<Rightarrow> subscriber \<Rightarrow> feedback \<times> subscriber" where
  "sub_unsubscribe selection res s =
     (let tag = unsubscribe_tag selection s
      in if tag = [] \<or> tag \<notin> set (subscribed s) then
           (Shown (showinfo (str ''Not subscribed'')
                     (str ''Select a hashtag in the list or type one you'' @ [39]
                        @ str ''re subscribed to.'')), s)
         else
           (let s1 = s\<lparr>subscribed := set_remove tag (subscribed s)\<rparr>;
                s2 = s1\<lparr>sub_list := listbox_delete_tag tag (sub_list s1)\<rparr>
            in if connected s2 \<and> client s2 \<noteq> None then
                 (let topic = TOPIC_PREFIX @ tag;
                      s3 = call (Unsubscribe topic) s2
                  in case res of
                       Returns u \<Rightarrow>
                         (Quiet, sub_log_msg (str ''Unsubscribed from '' @ [39] @ topic @ [39]) s3)
                     | Raises e \<Rightarrow>
                         (Quiet,
                          sub_log_msg (str ''Unsubscribe error for '' @ [39] @ topic @ [39]
                                         @ str '': '' @ e) s3))
               else
                 (Quiet,
                  sub_log_msg (str ''(queued removal) #'' @ tag
                                 @ str '' will not be re-subscribed on connect.'') s2)))"

section \<open>Errors, connect attempts and runs of the subscriber\<close>

text \<open>
  The publisher reports the errors \<open>NotConnected\<close>, \<open>InvalidTopic\<close> and \<open>EmptyPayload\<close>
  of the specification as these three warnings of \<open>_publish\<close>.
\<close>

definition NotConnected :: notice where
  "NotConnected = showwarning (str ''Not connected'') (str ''Please connect to a broker first.'')"

definition InvalidTopic :: notice where
  "InvalidTopic =
     showwarning (str ''Invalid hashtag'') (str ''Please enter a valid hashtag (e.g., #iot or iot).'')"

definition EmptyPayload :: notice where
  "EmptyPayload = showwarning (str ''Empty tweet'') (str ''Please write something to publish.'')"

text \<open>
  A connect attempt up to its completion: the worker, and, when the worker returned, the
  call of \<open>_on_connect\<close> that the network loop of the library makes with the reason code
  of the broker's answer. When the worker raised, no network loop runs for the attempt and
  the library makes no callback.
\<close>

definition pub_connect_attempt ::
    "pystr \<Rightarrow> int \<Rightarrow> worker_outcome \<Rightarrow> int \<Rightarrow> publisher \<Rightarrow> publisher" where
  "pub_connect_attempt broker port outcome reason_code s =
     (case outcome of
        Worker_returns \<Rightarrow> pub_on_connect reason_code (pub_worker broker port outcome s)
      | _ \<Rightarrow> pub_worker broker port outcome s)"

definition sub_connect_attempt ::
    "pystr \<Rightarrow> int \<Rightarrow> worker_outcome \<Rightarrow> int \<Rightarrow> subscriber \<Rightarrow> subscriber" where
  "sub_connect_attempt broker port outcome reason_code s =
     (case outcome of
        Worker_returns \<Rightarrow> sub_on_connect reason_code (sub_worker broker port outcome s)
      | _ \<Rightarrow> sub_worker broker port outcome s)"









section \<open>Properties of the topic naming\<close>

lemma trim_either_order:
  "rev (dropWhile P (rev (dropWhile P s))) = dropWhile P (rev (dropWhile P (rev s)))"
proof (induction s)
  case Nil
  show ?case by simp
next
  case (Cons x s)
  show ?case
  proof (cases "P x")
    case True
    show ?thesis
    proof (cases "\<forall>y\<in>set s. P y")
      case True
      then have "dropWhile P s = []" "dropWhile P (rev s @ [x]) = []"
        using \<open>P x\<close> by simp_all
      then show ?thesis using \<open>P x\<close> by (simp only: dropWhile.simps if_True rev.simps)
    next
      case False
      then have "dropWhile P (rev s @ [x]) = dropWhile P (rev s) @ [x]"
        by (simp add: dropWhile_append)
      with \<open>P x\<close> Cons.IH show ?thesis by simp
    qed
  next
    case False
    then have "dropWhile P (rev s @ [x]) = dropWhile P (rev s) @ [x]"
      by (simp add: dropWhile_append3)
    with False show ?thesis by simp
  qed
qed

lemma strip_spec_trim: "strip s = spec_trim s"
  by (simp add: strip_def lstrip_def rstrip_def spec_trim_def trim_either_order)

lemma startswith_marker:
  "(if startswith s (str ''#'') then drop 1 s else s) = spec_strip_marker s"
  by (cases s) (auto simp: startswith_def str_def)

lemma spec_collapse_run:
  "isspace c \<Longrightarrow> spec_collapse (c # cs) = 95 # spec_collapse (dropWhile isspace cs)"
  by (induction cs arbitrary: c) auto

lemma re_sub_plus_collapse: "re_sub_plus isspace (str ''_'') s = spec_collapse s"
proof (induction "isspace" "str ''_''" s rule: re_sub_plus.induct)
  case 1
  show ?case by simp
next
  case (2 c cs)
  show ?case
  proof (cases "isspace c")
    case True
    with 2 show ?thesis by (simp add: spec_collapse_run str_def)
  next
    case False
    with 2 show ?thesis by (cases cs) auto
  qed
qed

lemma re_sub_class_filter: "re_sub_class cls [] s = filter (\<lambda>c. \<not> cls c) s"
  by (induction s) auto

lemma re_sub_class_remove: "re_sub_class not_in_tag_alphabet (str '''') s = spec_remove s"
  by (simp add: re_sub_class_filter spec_remove_def not_in_tag_alphabet_def str_def)

lemma sanitize_hashtag_normalize: "sanitize_hashtag s = normalize_spec s"
  by (simp add: sanitize_hashtag_def normalize_spec_def Let_def strip_spec_trim startswith_marker
        re_sub_plus_collapse re_sub_class_remove)

lemmas sanitize_eval =
  sanitize_hashtag_def str_def strip_def lstrip_def rstrip_def startswith_def isspace_def
  not_in_tag_alphabet_def in_tag_alphabet_def

lemma alphabet_not_space: "in_tag_alphabet c \<Longrightarrow> \<not> isspace c"
  by (auto simp: in_tag_alphabet_def isspace_def)

lemma re_sub_plus_none: "\<forall>c\<in>set s. \<not> cls c \<Longrightarrow> re_sub_plus cls repl s = s"
  by (induction s) auto

lemma re_sub_class_none: "\<forall>c\<in>set s. \<not> cls c \<Longrightarrow> re_sub_class cls repl s = s"
  by (induction s) auto

lemma dropWhile_none: "\<forall>c\<in>set s. \<not> P c \<Longrightarrow> dropWhile P s = s"
  by (cases s) auto

lemma strip_none: "\<forall>c\<in>set s. \<not> isspace c \<Longrightarrow> strip s = s"
  by (simp add: strip_def lstrip_def rstrip_def dropWhile_none)

lemma sanitize_hashtag_alphabet: "c \<in> set (sanitize_hashtag s) \<Longrightarrow> in_tag_alphabet c"
  by (simp add: sanitize_hashtag_def Let_def str_def re_sub_class_filter not_in_tag_alphabet_def)

lemma sanitize_hashtag_fixed:
  assumes "\<forall>c\<in>set s. in_tag_alphabet c"
  shows "sanitize_hashtag s = s"
proof -
  from assms have ns: "\<forall>c\<in>set s. \<not> isspace c"
    by (auto dest: alphabet_not_space)
  have nh: "\<not> startswith s (str ''#'')"
    using assms by (cases s) (auto simp: startswith_def str_def in_tag_alphabet_def)
  from assms have na: "\<forall>c\<in>set s. \<not> not_in_tag_alphabet c"
    by (simp add: not_in_tag_alphabet_def)
  show ?thesis
    by (simp add: sanitize_hashtag_def Let_def strip_none[OF ns] nh re_sub_plus_none[OF ns]
          re_sub_class_none[OF na])
qed

text \<open>
  Claim C1. For every string, \<open>sanitize_hashtag\<close> computes the normalisation of the
  specification: trim the whitespace at both ends, strip one leading \<open>#\<close>, replace each
  run of whitespace by one underscore, delete every character outside
  \<open>[A-Za-z0-9_-]\<close>. In particular \<open>"#iot"\<close> and \<open>"iot"\<close> both give \<open>"iot"\<close>,
  \<open>"  my tag! "\<close> gives \<open>"my_tag"\<close> and \<open>"###"\<close> gives the empty string.
\<close>

theorem C1_sanitize_hashtag_computes_normalize:
  "sanitize_hashtag s = normalize_spec s
   \<and> sanitize_hashtag (str ''#iot'') = str ''iot''
   \<and> sanitize_hashtag (str ''iot'') = str ''iot''
   \<and> sanitize_hashtag (str ''  my tag! '') = str ''my_tag''
   \<and> sanitize_hashtag (str ''###'') = str ''''"
proof -
  have "sanitize_hashtag (str ''#iot'') = str ''iot''" by (simp add: sanitize_eval)
  moreover have "sanitize_hashtag (str ''iot'') = str ''iot''" by (simp add: sanitize_eval)
  moreover have "sanitize_hashtag (str ''  my tag! '') = str ''my_tag''"
    by (simp add: sanitize_eval)
  moreover have "sanitize_hashtag (str ''###'') = str ''''" by (simp add: sanitize_eval)
  ultimately show ?thesis by (simp only: sanitize_hashtag_normalize simp_thms)
qed

theorem C1_witness:
  "normalize_spec ([9, 35, 35] @ str ''Caf'' @ [233, 160, 8195] @ str ''au lait'' @ [12288])
     = str ''Caf_au_lait''"
  using C1_sanitize_hashtag_computes_normalize
          [of "[9, 35, 35] @ str ''Caf'' @ [233, 160, 8195] @ str ''au lait'' @ [12288]"]
  by (simp add: sanitize_eval)

text \<open>
  Claim C2. \<open>sanitize_hashtag\<close> is idempotent, and every character of its result lies in
  \<open>[A-Za-z0-9_-]\<close>.
\<close>

theorem C2_sanitize_hashtag_idempotent:
  "sanitize_hashtag (sanitize_hashtag s) = sanitize_hashtag s
   \<and> (\<forall>c\<in>set (sanitize_hashtag s). in_tag_alphabet c)"
proof
  show "sanitize_hashtag (sanitize_hashtag s) = sanitize_hashtag s"
    by (rule sanitize_hashtag_fixed) (auto dest: sanitize_hashtag_alphabet)
  show "\<forall>c\<in>set (sanitize_hashtag s). in_tag_alphabet c"
    by (auto dest: sanitize_hashtag_alphabet)
qed

theorem C2_witness:
  "95 \<in> set (sanitize_hashtag (str ''# a b!'')) \<and> in_tag_alphabet 95
   \<and> sanitize_hashtag (sanitize_hashtag (str ''# a b!'')) = str ''_a_b''"
  using C2_sanitize_hashtag_idempotent [of "str ''# a b!''"]
  by (simp add: sanitize_eval)

section \<open>Properties of the publisher\<close>

lemma strip_text_get: "strip (text_get t) = strip t"
proof (cases "\<forall>c\<in>set t. isspace c")
  case True
  then have "dropWhile isspace (t @ [10]) = []" "dropWhile isspace t = []"
    by (simp_all add: isspace_def)
  then show ?thesis by (simp only: strip_def lstrip_def rstrip_def text_get_def)
next
  case False
  then have "dropWhile isspace (t @ [10]) = dropWhile isspace t @ [10]"
    by (simp add: dropWhile_append)
  then show ?thesis by (simp add: strip_def lstrip_def rstrip_def text_get_def isspace_def)
qed

lemmas pub_eval =
  pub_publish_def pub_init_def call_def pub_log_def Let_def text_get_def
  TOPIC_PREFIX_def DEFAULT_BROKER_def DEFAULT_PORT_def

text \<open>
  Claim C3. Whatever call \<open>_publish\<close> issues to the client is a \<open>publish\<close> on the topic
  \<open>"twitter/"\<close> followed by the normalised hashtag, with the payload
  \<open>"<username>: <tweet-text>"\<close> (the tweet text trimmed), quality of service 0 and no
  retain flag; the username is \<open>"anonymous"\<close> when the trimmed username field is empty.
\<close>

theorem C3_publish_wire_format:
  "calls (snd (pub_publish res s)) = calls s @ cs \<Longrightarrow> c \<in> set cs \<Longrightarrow>
     \<exists>i. client s = Some i \<and>
       c = (i, Publish (TOPIC_PREFIX @ sanitize_hashtag (hashtag_var s))
                 ((if strip (username_var s) = [] then str ''anonymous''
                   else strip (username_var s))
                    @ str '': '' @ strip (tweet_text s)) 0 False)"
  by (auto simp: pub_publish_def Let_def call_def pub_log_def strip_text_get
           split: if_splits outcome.splits option.splits)

theorem C3_witness:
  "calls (snd (pub_publish (Returns 0)
       (pub_init\<lparr>client := Some 0, connected := True, hashtag_var := str ''#iot'',
                  tweet_text := str ''hello world''\<rparr>)))
     = [(0, Publish (str ''twitter/iot'') (str ''anonymous: hello world'') 0 False)]
   \<and> (\<exists>i. Some (0::nat) = Some i \<and>
         (0::nat, Publish (str ''twitter/iot'') (str ''anonymous: hello world'') 0 False)
           = (i, Publish (str ''twitter/iot'') (str ''anonymous: hello world'') 0 False))"
proof -
  let ?s = "pub_init\<lparr>client := Some 0, connected := True, hashtag_var := str ''#iot'',
                      tweet_text := str ''hello world''\<rparr>"
  let ?c = "(0::nat, Publish (str ''twitter/iot'') (str ''anonymous: hello world'') 0 False)"
  have run: "calls (snd (pub_publish (Returns 0) ?s)) = calls ?s @ [?c]"
    by (simp add: pub_eval sanitize_eval)
  have "?c \<in> set [?c]" by simp
  from C3_publish_wire_format [OF run this] run show ?thesis
    by (simp add: pub_eval sanitize_eval)
qed

text \<open>
  Claim C4. \<open>_publish\<close> fails with \<open>NotConnected\<close> when the application is not connected,
  with \<open>InvalidTopic\<close> when it is connected and the hashtag normalises to the empty
  string, and with \<open>EmptyPayload\<close> when moreover the trimmed tweet is empty; in the three
  cases the state, and with it the list of calls issued, is as before. Connected and with a
  hashtag and a tweet that are not empty, it issues exactly one \<open>publish\<close> call, whatever
  the client answers.
\<close>

theorem C4_publish_guards:
  "(\<not> (connected s \<and> client s \<noteq> None) \<longrightarrow> pub_publish res s = (Shown NotConnected, s))
   \<and> (connected s \<and> client s \<noteq> None \<and> sanitize_hashtag (hashtag_var s) = [] \<longrightarrow>
        pub_publish res s = (Shown InvalidTopic, s))
   \<and> (connected s \<and> client s \<noteq> None \<and> sanitize_hashtag (hashtag_var s) \<noteq> []
        \<and> strip (tweet_text s) = [] \<longrightarrow> pub_publish res s = (Shown EmptyPayload, s))
   \<and> (connected s \<and> client s \<noteq> None \<and> sanitize_hashtag (hashtag_var s) \<noteq> []
        \<and> strip (tweet_text s) \<noteq> [] \<longrightarrow>
        (\<exists>i topic payload. fst (pub_publish res s) = Quiet \<and>
           calls (snd (pub_publish res s)) = calls s @ [(i, Publish topic payload 0 False)]))"
  by (auto simp: pub_publish_def Let_def call_def pub_log_def strip_text_get
        NotConnected_def InvalidTopic_def EmptyPayload_def
           split: if_splits outcome.splits option.splits)

theorem C4_witness:
  "pub_publish (Returns 0) (pub_init\<lparr>hashtag_var := str ''iot'', tweet_text := str ''hi''\<rparr>)
     = (Shown NotConnected, pub_init\<lparr>hashtag_var := str ''iot'', tweet_text := str ''hi''\<rparr>)
   \<and> pub_publish (Returns 0)
        (pub_init\<lparr>client := Some 0, connected := True, hashtag_var := str ''###'',
                   tweet_text := str ''hi''\<rparr>)
     = (Shown InvalidTopic,
        pub_init\<lparr>client := Some 0, connected := True, hashtag_var := str ''###'',
                  tweet_text := str ''hi''\<rparr>)
   \<and> pub_publish (Returns 0)
        (pub_init\<lparr>client := Some 0, connected := True, hashtag_var := str ''iot'',
                   tweet_text := str ''  ''\<rparr>)
     = (Shown EmptyPayload,
        pub_init\<lparr>client := Some 0, connected := True, hashtag_var := str ''iot'',
                  tweet_text := str ''  ''\<rparr>)
   \<and> (\<exists>i topic payload.
        calls (snd (pub_publish (Raises (str ''timed out''))
                 (pub_init\<lparr>client := Some 0, connected := True, hashtag_var := str ''iot'',
                            tweet_text := str ''hi''\<rparr>)))
          = [(i, Publish topic payload 0 False)])"
  using
    C4_publish_guards [of "pub_init\<lparr>hashtag_var := str ''iot'', tweet_text := str ''hi''\<rparr>"
                          "Returns 0"]
    C4_publish_guards [of "pub_init\<lparr>client := Some 0, connected := True,
                             hashtag_var := str ''###'', tweet_text := str ''hi''\<rparr>" "Returns 0"]
    C4_publish_guards [of "pub_init\<lparr>client := Some 0, connected := True,
                             hashtag_var := str ''iot'', tweet_text := str ''  ''\<rparr>" "Returns 0"]
    C4_publish_guards [of "pub_init\<lparr>client := Some 0, connected := True,
                             hashtag_var := str ''iot'', tweet_text := str ''hi''\<rparr>"
                          "Raises (str ''timed out'')"]
  by (simp add: pub_init_def sanitize_eval)

section \<open>Properties of the connect attempt and of the message handler\<close>

text \<open>
  Claim C9. A connect attempt that completes puts exactly one event into the status queue:
  a \<open>"connected"\<close> event if and only if the worker returned and the library reported the
  reason code 0, an \<open>"error"\<close> event otherwise, also when \<open>mqtt.Client()\<close>, \<open>connect\<close>
  or \<open>loop_start\<close> raised. The same holds in the publisher and in the subscriber.
\<close>

theorem C9_connect_attempt_one_event:
  "(\<exists>ev. status_queue (pub_connect_attempt b p oc rc s) = status_queue s @ [ev]
      \<and> (fst ev = str ''connected'' \<longleftrightarrow> oc = Worker_returns \<and> rc = 0)
      \<and> (fst ev = str ''error'' \<longleftrightarrow> \<not> (oc = Worker_returns \<and> rc = 0)))
   \<and> (\<exists>ev. status_queue (sub_connect_attempt b p oc rc t) = status_queue t @ [ev]
      \<and> (fst ev = str ''connected'' \<longleftrightarrow> oc = Worker_returns \<and> rc = 0)
      \<and> (fst ev = str ''error'' \<longleftrightarrow> \<not> (oc = Worker_returns \<and> rc = 0)))"
proof
  show "\<exists>ev. status_queue (pub_connect_attempt b p oc rc s) = status_queue s @ [ev]
      \<and> (fst ev = str ''connected'' \<longleftrightarrow> oc = Worker_returns \<and> rc = 0)
      \<and> (fst ev = str ''error'' \<longleftrightarrow> \<not> (oc = Worker_returns \<and> rc = 0))"
    by (cases oc)
       (auto simp: pub_connect_attempt_def pub_worker_def pub_on_connect_def call_def put_def
                   Let_def str_def)
  show "\<exists>ev. status_queue (sub_connect_attempt b p oc rc t) = status_queue t @ [ev]
      \<and> (fst ev = str ''connected'' \<longleftrightarrow> oc = Worker_returns \<and> rc = 0)
      \<and> (fst ev = str ''error'' \<longleftrightarrow> \<not> (oc = Worker_returns \<and> rc = 0))"
    by (cases oc)
       (auto simp: sub_connect_attempt_def sub_worker_def sub_on_connect_def call_def put_def
                   Let_def str_def)
qed

theorem C9_witness:
  "status_queue (pub_connect_attempt DEFAULT_BROKER 1883 Worker_returns 0 pub_init)
     = [(str ''connected'', str ''Connected to broker.'')]
   \<and> status_queue (pub_connect_attempt DEFAULT_BROKER 1883 Worker_returns 5 pub_init)
     = [(str ''error'', str ''Failed to connect. Code: 5'')]
   \<and> status_queue (sub_connect_attempt DEFAULT_BROKER 1883 (Connect_raises (str ''refused'')) 0 sub_init)
     = [(str ''error'', str ''Connection failed: refused'')]
   \<and> (\<exists>ev. status_queue (sub_connect_attempt DEFAULT_BROKER 1883 Worker_returns 0 sub_init) = [ev]
         \<and> fst ev = str ''connected'')"
  using C9_connect_attempt_one_event
          [of DEFAULT_BROKER 1883 Worker_returns 0 pub_init sub_init]
  by (simp add: pub_connect_attempt_def pub_worker_def pub_on_connect_def
        sub_connect_attempt_def sub_worker_def sub_on_connect_def call_def put_def Let_def
        pub_init_def sub_init_def str_int_def str_def)



section \<open>Properties of unsubscribing and of connecting\<close>

text \<open>
  Claim C7. When the tag that \<open>_unsubscribe\<close> works on (the selected label without its
  \<open>#\<close>, or the normalised hashtag field when nothing is selected) is empty or is not in
  the set of subscribed tags, the handler only shows a notice: the state is as before, so
  no \<open>unsubscribe\<close> call is issued and the set and the listbox are unchanged.
\<close>

theorem C7_unsubscribe_unknown_tag_noop:
  "unsubscribe_tag selection s = [] \<or> unsubscribe_tag selection s \<notin> set (subscribed s) \<Longrightarrow>
     (\<exists>n. fst (sub_unsubscribe selection res s) = Shown n)
     \<and> snd (sub_unsubscribe selection res s) = s
     \<and> calls (snd (sub_unsubscribe selection res s)) = calls s
     \<and> subscribed (snd (sub_unsubscribe selection res s)) = subscribed s
     \<and> sub_list (snd (sub_unsubscribe selection res s)) = sub_list s"
  by (auto simp: sub_unsubscribe_def Let_def)

theorem C7_witness:
  "unsubscribe_tag []
       (sub_init\<lparr>client := Some 0, connected := True, hashtag_var := str ''#iot'',
                  subscribed := [str ''news''], sub_list := [str ''#news'']\<rparr>)
     = str ''iot''
   \<and> str ''iot'' \<notin> set [str ''news'']
   \<and> snd (sub_unsubscribe [] (Returns ())
        (sub_init\<lparr>client := Some 0, connected := True, hashtag_var := str ''#iot'',
                   subscribed := [str ''news''], sub_list := [str ''#news'']\<rparr>))
     = sub_init\<lparr>client := Some 0, connected := True, hashtag_var := str ''#iot'',
                 subscribed := [str ''news''], sub_list := [str ''#news'']\<rparr>"
proof -
  let ?s = "sub_init\<lparr>client := Some 0, connected := True, hashtag_var := str ''#iot'',
                      subscribed := [str ''news''], sub_list := [str ''#news'']\<rparr>"
  have tag: "unsubscribe_tag [] ?s = str ''iot''"
    by (simp add: unsubscribe_tag_def sub_init_def sanitize_eval)
  have new: "str ''iot'' \<notin> set [str ''news'']"
    by (simp add: str_def)
  have "unsubscribe_tag [] ?s = [] \<or> unsubscribe_tag [] ?s \<notin> set (subscribed ?s)"
    using tag new by (simp add: sub_init_def)
  from C7_unsubscribe_unknown_tag_noop [OF this, of "Returns ()"] tag new
  show ?thesis by simp
qed

text \<open>
  Claim C8 says that a call to connect during an outstanding attempt is rejected or
  ignored, so that at most one attempt is in flight. The code keeps no record of an
  outstanding attempt: \<open>_toggle_connection\<close> only looks at \<open>self.connected\<close>, which is
  still false while the first worker runs. Pressing the button twice from the start,
  with no event consumed in between, is neither rejected nor ignored and leaves two
  started workers.
\<close>

theorem C8_counterexample:
  "\<not> (fst (pub_toggle_connection True (snd (pub_toggle_connection True pub_init))) \<noteq> Quiet
      \<or> snd (pub_toggle_connection True (snd (pub_toggle_connection True pub_init)))
          = snd (pub_toggle_connection True pub_init)
      \<or> length (threads (snd (pub_toggle_connection True
                                 (snd (pub_toggle_connection True pub_init))))) \<le> 1)"
  by (simp add: pub_toggle_connection_def pub_connect_async_def pub_log_def pub_init_def
        Let_def DEFAULT_PORT_def)

text \<open>
  Claim C8 as amended. While \<open>connected\<close> is false, also during an outstanding attempt,
  every call to connect with the client library present and a number in the port field
  starts one more worker for the stripped broker field and the port (the default port
  when the field holds 0), shows nothing and leaves \<open>connected\<close> false. The same holds in
  the publisher and in the subscriber.
\<close>

theorem C8_every_connect_starts_a_worker:
  "mqtt \<Longrightarrow> \<not> connected s \<Longrightarrow> port_var s = Some v \<Longrightarrow> \<not> connected t \<Longrightarrow> port_var t = Some w \<Longrightarrow>
     fst (pub_toggle_connection mqtt s) = Quiet
     \<and> threads (snd (pub_toggle_connection mqtt s))
         = threads s @ [(strip (broker_var s), if v = 0 then DEFAULT_PORT else v)]
     \<and> \<not> connected (snd (pub_toggle_connection mqtt s))
     \<and> fst (sub_toggle_connection mqtt t) = Quiet
     \<and> threads (snd (sub_toggle_connection mqtt t))
         = threads t @ [(strip (broker_var t), if w = 0 then DEFAULT_PORT else w)]
     \<and> \<not> connected (snd (sub_toggle_connection mqtt t))"
  by (simp add: pub_toggle_connection_def pub_connect_async_def pub_log_def
        sub_toggle_connection_def sub_connect_async_def sub_log_msg_def Let_def)

theorem C8_witness:
  "threads (snd (pub_toggle_connection True (snd (pub_toggle_connection True pub_init))))
     = [(str ''test.mosquitto.org'', 1883), (str ''test.mosquitto.org'', 1883)]
   \<and> threads (snd (sub_toggle_connection True (snd (sub_toggle_connection True sub_init))))
     = [(str ''test.mosquitto.org'', 1883), (str ''test.mosquitto.org'', 1883)]"
proof -
  let ?s = "snd (pub_toggle_connection True pub_init)"
  let ?t = "snd (sub_toggle_connection True sub_init)"
  have s: "\<not> connected ?s" "port_var ?s = Some 1883"
    by (simp_all add: pub_toggle_connection_def pub_connect_async_def pub_log_def pub_init_def
          Let_def DEFAULT_PORT_def)
  have t: "\<not> connected ?t" "port_var ?t = Some 1883"
    by (simp_all add: sub_toggle_connection_def sub_connect_async_def sub_log_msg_def
          sub_init_def Let_def DEFAULT_PORT_def)
  from C8_every_connect_starts_a_worker [OF TrueI s t]
  show ?thesis
    by (simp add: pub_toggle_connection_def pub_connect_async_def pub_log_def pub_init_def
          sub_toggle_connection_def sub_connect_async_def sub_log_msg_def sub_init_def
          Let_def DEFAULT_PORT_def DEFAULT_BROKER_def strip_def lstrip_def rstrip_def
          isspace_def str_def)
qed

section \<open>Properties of the drains\<close>

lemma get_nowait_Nil: "get_nowait [] = Inl Empty"
  by (simp add: get_nowait_def)

lemma get_nowait_Cons: "get_nowait (x # r) = Inr (x, r)"
  by (simp add: get_nowait_def)

lemma foldl_put: "foldl put q evs = q @ evs"
  by (induction evs arbitrary: q) (simp_all add: put_def)

lemma pub_status_event_queue:
  "pub_status_event kind msg (s\<lparr>status_queue := q\<rparr>)
     = (pub_status_event kind msg s)\<lparr>status_queue := q\<rparr>"
  by (simp add: pub_status_event_def pub_log_def)

lemma status_queue_pub_status_event:
  "status_queue (pub_status_event kind msg s) = status_queue s"
  by (simp add: pub_status_event_def pub_log_def)

lemma pub_drain_fold:
  "pub_drain_status_queue s =
     fold (\<lambda>(kind, msg). pub_status_event kind msg) (status_queue s) (s\<lparr>status_queue := []\<rparr>)"
proof (induction "status_queue s" arbitrary: s)
  case Nil
  then have "status_queue s = []" by simp
  then show ?case
    by (subst pub_drain_status_queue.simps) (simp add: get_nowait_Nil)
next
  case (Cons e q)
  obtain kind msg where e: "e = (kind, msg)" by (cases e)
  let ?s' = "pub_status_event kind msg (s\<lparr>status_queue := q\<rparr>)"
  from Cons.hyps(2) e have sq: "status_queue s = (kind, msg) # q" by simp
  have q': "q = status_queue ?s'" by (simp add: status_queue_pub_status_event)
  have "pub_drain_status_queue s = pub_drain_status_queue ?s'"
    by (subst pub_drain_status_queue.simps) (simp add: sq get_nowait_Cons)
  also have "\<dots> = fold (\<lambda>(kind, msg). pub_status_event kind msg) (status_queue ?s')
                     (?s'\<lparr>status_queue := []\<rparr>)"
    by (rule Cons.hyps(1) [OF q'])
  also have "\<dots> = fold (\<lambda>(kind, msg). pub_status_event kind msg) (status_queue s)
                     (s\<lparr>status_queue := []\<rparr>)"
    by (simp add: sq status_queue_pub_status_event pub_status_event_queue)
  finally show ?case .
qed

lemma sub_subscribe_to_topic_queue:
  "sub_subscribe_to_topic lib tag (s\<lparr>status_queue := q\<rparr>)
     = (sub_subscribe_to_topic lib tag s)\<lparr>status_queue := q\<rparr>"
  by (simp add: sub_subscribe_to_topic_def sub_log_msg_def call_def Let_def
           split: outcome.splits option.splits)

lemma fold_subscribe_queue:
  "fold (sub_subscribe_to_topic lib) tags (s\<lparr>status_queue := q\<rparr>)
     = (fold (sub_subscribe_to_topic lib) tags s)\<lparr>status_queue := q\<rparr>"
  by (induction tags arbitrary: s) (simp_all add: sub_subscribe_to_topic_queue)

lemma sub_status_event_queue:
  "sub_status_event lib kind msg (s\<lparr>status_queue := q\<rparr>)
     = (sub_status_event lib kind msg s)\<lparr>status_queue := q\<rparr>"
proof -
  have log: "\<And>x. sub_log_msg msg (x\<lparr>status_queue := q\<rparr>) = (sub_log_msg msg x)\<lparr>status_queue := q\<rparr>"
    by (simp add: sub_log_msg_def)
  have up: "\<And>c b l. s\<lparr>status_queue := q, connected := c, connect_btn := b, status_lbl := l\<rparr>
      = (s\<lparr>connected := c, connect_btn := b, status_lbl := l\<rparr>)\<lparr>status_queue := q\<rparr>"
    by simp
  have sub: "\<And>x. subscribed (x\<lparr>status_queue := q\<rparr>) = subscribed x"
    by simp
  show ?thesis
    by (simp only: sub_status_event_def Let_def up log sub fold_subscribe_queue
          if_distrib [of "\<lambda>x. x\<lparr>status_queue := q\<rparr>"])
qed

lemma sub_drain_fold:
  "sub_drain_status_queue lib s =
     fold (\<lambda>(kind, msg). sub_status_event lib kind msg) (status_queue s)
       (s\<lparr>status_queue := []\<rparr>)"
proof (induction "status_queue s" arbitrary: s)
  case Nil
  then have "status_queue s = []" by simp
  then show ?case
    by (subst sub_drain_status_queue.simps) (simp add: get_nowait_Nil)
next
  case (Cons e q)
  obtain kind msg where e: "e = (kind, msg)" by (cases e)
  let ?s' = "sub_status_event lib kind msg (s\<lparr>status_queue := q\<rparr>)"
  from Cons.hyps(2) e have sq: "status_queue s = (kind, msg) # q" by simp
  have q': "q = status_queue ?s'" by (simp add: status_queue_sub_status_event)
  have "sub_drain_status_queue lib s = sub_drain_status_queue lib ?s'"
    by (subst sub_drain_status_queue.simps) (simp add: sq get_nowait_Cons)
  also have "\<dots> = fold (\<lambda>(kind, msg). sub_status_event lib kind msg) (status_queue ?s')
                     (?s'\<lparr>status_queue := []\<rparr>)"
    by (rule Cons.hyps(1) [OF q'])
  also have "\<dots> = fold (\<lambda>(kind, msg). sub_status_event lib kind msg) (status_queue s)
                     (s\<lparr>status_queue := []\<rparr>)"
    by (simp add: sq status_queue_sub_status_event sub_status_event_queue)
  finally show ?case .
qed

lemma sub_drain_message:
  "sub_drain_message_queue s = s\<lparr>msg_queue := [], msg_text := msg_text s @ msg_queue s\<rparr>"
proof (induction "msg_queue s" arbitrary: s)
  case Nil
  then have "msg_queue s = []" by simp
  then show ?case
    by (subst sub_drain_message_queue.simps) (simp add: get_nowait_Nil)
next
  case (Cons line q)
  let ?s' = "sub_log_msg line (s\<lparr>msg_queue := q\<rparr>)"
  from Cons.hyps(2) have sq: "msg_queue s = line # q" by simp
  have q': "q = msg_queue ?s'" by (simp add: sub_log_msg_def)
  have "sub_drain_message_queue s = sub_drain_message_queue ?s'"
    by (subst sub_drain_message_queue.simps) (simp add: sq get_nowait_Cons)
  also have "\<dots> = ?s'\<lparr>msg_queue := [], msg_text := msg_text ?s' @ msg_queue ?s'\<rparr>"
    by (rule Cons.hyps(1) [OF q'])
  also have "\<dots> = s\<lparr>msg_queue := [], msg_text := msg_text s @ msg_queue s\<rparr>"
    by (simp add: sq sub_log_msg_def)
  finally show ?case .
qed

lemma status_queue_fold_pub:
  "status_queue (fold (\<lambda>(kind, msg). pub_status_event kind msg) evs s) = status_queue s"
  by (induction evs arbitrary: s) (auto simp: status_queue_pub_status_event)

lemma status_queue_fold_sub:
  "status_queue (fold (\<lambda>(kind, msg). sub_status_event lib kind msg) evs s) = status_queue s"
  by (induction evs arbitrary: s) (auto simp: status_queue_sub_status_event)

lemma pub_drain_empties: "status_queue (pub_drain_status_queue s) = []"
  by (simp add: pub_drain_fold status_queue_fold_pub)

lemma sub_drain_empties: "status_queue (sub_drain_status_queue lib s) = []"
  by (simp add: sub_drain_fold status_queue_fold_sub)

lemma pub_drain_of_empty: "status_queue s = [] \<Longrightarrow> pub_drain_status_queue s = s"
  by (simp add: pub_drain_fold)

lemma sub_drain_of_empty: "status_queue s = [] \<Longrightarrow> sub_drain_status_queue lib s = s"
  by (simp add: sub_drain_fold)

text \<open>
  Claim C6. A drain handles every event that is in the queue, once and in the order of
  the \<open>put\<close>s, and leaves the queue empty: \<open>_drain_status_queue\<close> is the loop body applied
  to the queued events from the first to the last, in the publisher and in the
  subscriber, and \<open>_drain_message_queue\<close> appends the queued lines to the feed in their
  order. So the events handled by a drain are those put since the drain before, whatever
  they are, and a drain that follows another with no \<open>put\<close> in between handles nothing
  and changes nothing.
\<close>

theorem C6_drain_delivers_each_event_once:
  "pub_drain_status_queue s
     = fold (\<lambda>(kind, msg). pub_status_event kind msg) (status_queue s) (s\<lparr>status_queue := []\<rparr>)
   \<and> status_queue (pub_drain_status_queue s) = []
   \<and> pub_drain_status_queue
        ((pub_drain_status_queue s)
           \<lparr>status_queue := foldl put (status_queue (pub_drain_status_queue s)) evs\<rparr>)
     = fold (\<lambda>(kind, msg). pub_status_event kind msg) evs (pub_drain_status_queue s)
   \<and> pub_drain_status_queue (pub_drain_status_queue s) = pub_drain_status_queue s
   \<and> sub_drain_status_queue lib t
     = fold (\<lambda>(kind, msg). sub_status_event lib kind msg) (status_queue t)
         (t\<lparr>status_queue := []\<rparr>)
   \<and> status_queue (sub_drain_status_queue lib t) = []
   \<and> sub_drain_status_queue lib
        ((sub_drain_status_queue lib t)
           \<lparr>status_queue := foldl put (status_queue (sub_drain_status_queue lib t)) evs\<rparr>)
     = fold (\<lambda>(kind, msg). sub_status_event lib kind msg) evs (sub_drain_status_queue lib t)
   \<and> sub_drain_status_queue lib (sub_drain_status_queue lib t) = sub_drain_status_queue lib t
   \<and> sub_drain_message_queue t = t\<lparr>msg_queue := [], msg_text := msg_text t @ msg_queue t\<rparr>
   \<and> sub_drain_message_queue (sub_drain_message_queue t) = sub_drain_message_queue t"
proof -
  define d where "d = pub_drain_status_queue s"
  define e where "e = sub_drain_status_queue lib t"
  have d: "status_queue d = []" by (simp add: d_def pub_drain_empties)
  have e: "status_queue e = []" by (simp add: e_def sub_drain_empties)
  from d have d0: "d\<lparr>status_queue := []\<rparr> = d" by simp
  from e have e0: "e\<lparr>status_queue := []\<rparr> = e" by simp
  have p3: "pub_drain_status_queue (d\<lparr>status_queue := foldl put (status_queue d) evs\<rparr>)
      = fold (\<lambda>(kind, msg). pub_status_event kind msg) evs d"
    by (simp add: pub_drain_fold foldl_put d d0)
  have p4: "pub_drain_status_queue d = d"
    by (rule pub_drain_of_empty [OF d])
  have s3: "sub_drain_status_queue lib (e\<lparr>status_queue := foldl put (status_queue e) evs\<rparr>)
      = fold (\<lambda>(kind, msg). sub_status_event lib kind msg) evs e"
    by (simp add: sub_drain_fold foldl_put e e0)
  have s4: "sub_drain_status_queue lib e = e"
    by (rule sub_drain_of_empty [OF e])
  have m2: "sub_drain_message_queue (sub_drain_message_queue t) = sub_drain_message_queue t"
    by (simp add: sub_drain_message)
  show ?thesis
    using p3 p4 s3 s4 m2 d e
    unfolding d_def e_def
    by (simp only: pub_drain_fold [symmetric] sub_drain_fold [symmetric]
          sub_drain_message [symmetric] simp_thms)
qed

theorem C6_witness:
  "pub_drain_status_queue
      (pub_init\<lparr>status_queue := [(str ''connected'', str ''Connected to broker.''),
                                   (str ''disconnected'', str ''Disconnected from broker.'')]\<rparr>)
     = pub_init\<lparr>log_text := [str ''Connected to broker.'', str ''Disconnected from broker.'']\<rparr>
   \<and> sub_drain_message_queue
        (sub_init\<lparr>msg_queue := [str ''[twitter/iot] alice: hello world'',
                                   str ''[twitter/news] bob: hi'']\<rparr>)
     = sub_init\<lparr>msg_text := [str ''[twitter/iot] alice: hello world'',
                               str ''[twitter/news] bob: hi'']\<rparr>"
  using C6_drain_delivers_each_event_once
    [of "pub_init\<lparr>status_queue := [(str ''connected'', str ''Connected to broker.''),
                                      (str ''disconnected'', str ''Disconnected from broker.'')]\<rparr>"
        "[]" "\<lambda>topic. Returns ()"
        "sub_init\<lparr>msg_queue := [str ''[twitter/iot] alice: hello world'',
                                  str ''[twitter/news] bob: hi'']\<rparr>"]
  by (simp add: pub_status_event_def pub_log_def pub_init_def sub_init_def str_def)

section \<open>Re-subscription on every connect\<close>























end
